theory Spec2Isabelle
  imports Main
begin

section \<open>Python values, exceptions and the log\<close>

text \<open>
  The values that travel through the hook and the operator: what \<^verbatim>\<open>json.loads\<close> yields
  for the extras payload and what a task passes as \<^verbatim>\<open>properties\<close>. A dictionary is an
  association list; JSON numbers are kept as integers.
\<close>

datatype pyval =
    PyNone
  | PyBool bool
  | PyInt int
  | PyStr string
  | PyList "pyval list"
  | PyDict "(string \<times> pyval) list"

type_synonym pydict = "(string \<times> pyval) list"

text \<open>\<^verbatim>\<open>d.get(k)\<close>: the value stored under \<open>k\<close>, and \<^verbatim>\<open>None\<close> when there is none.\<close>

definition dict_get :: "pydict \<Rightarrow> string \<Rightarrow> pyval" where
  "dict_get d k = (case map_of d k of None \<Rightarrow> PyNone | Some v \<Rightarrow> v)"

text \<open>
  The exceptions of the two modules. \<open>AttributeError cls name\<close> is Python's failure of
  the attribute lookup \<open>name\<close> on an object of class \<open>cls\<close>; \<open>OtherError\<close> stands for
  whatever else a collaborator outside these modules raises.
\<close>

datatype exn =
    AirflowException string
  | AttributeError string string
  | TypeError string
  | OtherError string

text \<open>A call of \<^verbatim>\<open>self.log.info\<close> or \<^verbatim>\<open>self.log.error\<close>: level, format string, arguments.\<close>

datatype level = INFO | ERROR

type_synonym log_record = "level \<times> string \<times> pyval list"

section \<open>The connection store, the hook and the client module\<close>

text \<open>
  Modelled from the spec: the connection record of the orchestration framework, whose
  class is not part of these modules. The spec gives it a string id and
  \<^verbatim>\<open>.extra_dejson\<close>, the extras payload parsed as a JSON object.
\<close>

record connection =
  conn_id :: string
  extra_dejson :: pydict

text \<open>The instance attributes \<^verbatim>\<open>PostHogHook.__init__\<close> sets.\<close>

record hook =
  posthog_conn_id :: string
  posthog_debug_mode :: bool
  args_ :: "pyval list"
  kwargs_ :: pydict
  connection :: connection
  extras :: pydict
  project_api_key :: pyval

text \<open>The bound method \<^verbatim>\<open>self.on_error\<close>, as a value stored in the client module.\<close>

datatype callback = BoundOnError hook

text \<open>
  Modelled from the spec: the vendor client, the imported module \<^verbatim>\<open>posthog\<close>, with the
  global fields \<^verbatim>\<open>debug\<close>, \<^verbatim>\<open>on_error\<close>, \<^verbatim>\<open>project_api_key\<close> and the operation
  \<^verbatim>\<open>capture(user_id, event, properties)\<close>; \<open>client_captured\<close> lists the capture
  calls the module has received, oldest first.
\<close>

record posthog_module =
  client_debug :: bool
  client_on_error :: "callback option"
  client_project_api_key :: pyval
  client_captured :: "(string \<times> string \<times> pydict) list"

text \<open>There is one module object; \<^verbatim>\<open>get_conn\<close> returns a reference to it.\<close>

datatype client_handle = PosthogModule

text \<open>The state the code acts on: the module's globals and the log written so far.\<close>

record world =
  posthog :: posthog_module
  logs :: "log_record list"

definition log_info :: "string \<Rightarrow> pyval list \<Rightarrow> world \<Rightarrow> world" where
  "log_info fmt as w = w\<lparr>logs := logs w @ [(INFO, fmt, as)]\<rparr>"

definition log_error :: "string \<Rightarrow> pyval list \<Rightarrow> world \<Rightarrow> world" where
  "log_error fmt as w = w\<lparr>logs := logs w @ [(ERROR, fmt, as)]\<rparr>"

text \<open>
  \<^verbatim>\<open>BaseHook\<close> is the framework's class and is taken as a parameter: its connection
  lookup \<^verbatim>\<open>get_connection\<close>, and for each attribute name the method an instance
  inherits under that name, if any (called with the instance, the keyword arguments and
  the state).
\<close>

type_synonym inherited_method = "hook \<Rightarrow> pydict \<Rightarrow> world \<Rightarrow> (exn + pyval) \<times> world"

record framework =
  get_connection :: "string \<Rightarrow> exn + connection"
  base_getattr :: "string \<Rightarrow> inherited_method option"

definition default_conn_name :: string where
  "default_conn_name = ''posthog_default''"

text \<open>
  \<^verbatim>\<open>PostHogHook.__init__\<close>: stores its arguments, fetches the connection, reads
  \<^verbatim>\<open>project_api_key\<close> from the extras and raises when the lookup gives \<^verbatim>\<open>None\<close>.
  It does not touch the module \<^verbatim>\<open>posthog\<close>.
\<close>

definition PostHogHook_init ::
  "framework \<Rightarrow> string \<Rightarrow> bool \<Rightarrow> pyval list \<Rightarrow> pydict \<Rightarrow> world \<Rightarrow> (exn + hook) \<times> world" where
  "PostHogHook_init fw cid dbg args kwargs w =
     (case get_connection fw cid of
        Inl e \<Rightarrow> (Inl e, w)
      | Inr c \<Rightarrow>
          (let ex = extra_dejson c;
               key = dict_get ex ''project_api_key''
           in if key = PyNone
              then (Inl (AirflowException ''No PostHog write key provided''), w)
              else (Inr \<lparr>posthog_conn_id = cid, posthog_debug_mode = dbg,
                         args_ = args, kwargs_ = kwargs, connection = c,
                         extras = ex, project_api_key = key\<rparr>, w)))"

text \<open>
  \<^verbatim>\<open>PostHogHook.get_conn\<close>: writes the debug flag, the error callback and the API key
  into the module, logging as it goes, and returns the module.
\<close>

definition get_conn :: "hook \<Rightarrow> world \<Rightarrow> client_handle \<times> world" where
  "get_conn h w =
     (let w1 = log_info ''Setting write key for PostHog connection'' [] w;
          w2 = w1\<lparr>posthog := (posthog w1)\<lparr>client_debug := posthog_debug_mode h\<rparr>\<rparr>;
          w3 = (if posthog_debug_mode h
                then log_info ''Setting PostHog connection to debug mode'' [] w2
                else w2);
          w4 = w3\<lparr>posthog := (posthog w3)\<lparr>client_on_error := Some (BoundOnError h)\<rparr>\<rparr>;
          w5 = w4\<lparr>posthog := (posthog w4)\<lparr>client_project_api_key := project_api_key h\<rparr>\<rparr>
      in (PosthogModule, w5))"

text \<open>\<^verbatim>\<open>PostHogHook.on_error\<close>: logs the error and the items, then raises.\<close>

definition on_error :: "hook \<Rightarrow> string \<Rightarrow> string \<Rightarrow> world \<Rightarrow> (exn + unit) \<times> world" where
  "on_error h error items w =
     (Inl (AirflowException (''PostHog error: '' @ error)),
      log_error ''Encountered PostHog error: %s with items: %s'' [PyStr error, PyStr items] w)"

text \<open>The client calling the callback it holds: \<^verbatim>\<open>posthog.on_error(error, items)\<close>.\<close>

fun invoke_callback :: "callback \<Rightarrow> string \<Rightarrow> string \<Rightarrow> world \<Rightarrow> (exn + unit) \<times> world" where
  "invoke_callback (BoundOnError h) error items w = on_error h error items w"

text \<open>
  Attribute lookup on a \<^verbatim>\<open>PostHogHook\<close> instance. \<open>PostHogHook_attrs\<close> are the names
  the instance and the class body bind: the attributes set in \<^verbatim>\<open>__init__\<close>, the four
  class constants and the three methods. Any other name is looked up in \<^verbatim>\<open>BaseHook\<close>;
  the class defines no \<^verbatim>\<open>__getattr__\<close>, so a name found nowhere is an
  \<^verbatim>\<open>AttributeError\<close>.
\<close>

definition PostHogHook_attrs :: "string list" where
  "PostHogHook_attrs =
     [''posthog_conn_id'', ''posthog_debug_mode'', ''_args'', ''_kwargs'', ''connection'',
      ''extras'', ''project_api_key'',
      ''conn_name_attr'', ''default_conn_name'', ''conn_type'', ''hook_name'',
      ''__init__'', ''get_conn'', ''on_error'']"

datatype attr = Own string | Inherited inherited_method

definition hook_getattr :: "framework \<Rightarrow> string \<Rightarrow> exn + attr" where
  "hook_getattr fw name =
     (if name \<in> set PostHogHook_attrs then Inr (Own name)
      else case base_getattr fw name of
             None \<Rightarrow> Inl (AttributeError ''PostHogHook'' name)
           | Some m \<Rightarrow> Inr (Inherited m))"

section \<open>The track-event operator\<close>

record operator =
  user_id :: string
  event :: string
  properties :: pydict
  op_posthog_conn_id :: string
  op_posthog_debug_mode :: bool

text \<open>\<^verbatim>\<open>properties or {}\<close>: \<^verbatim>\<open>None\<close> and the empty dictionary are both falsy.\<close>

definition properties_or_empty :: "pydict option \<Rightarrow> pydict" where
  "properties_or_empty p = (case p of None \<Rightarrow> [] | Some d \<Rightarrow> if d = [] then [] else d)"

text \<open>
  \<^verbatim>\<open>PostHogTrackEventOperator.__init__\<close>; an omitted \<^verbatim>\<open>properties\<close> is \<open>None\<close>. The
  keyword arguments handed on to \<^verbatim>\<open>BaseOperator\<close> play no part in \<^verbatim>\<open>execute\<close>.
\<close>

definition PostHogTrackEventOperator_init ::
  "string \<Rightarrow> string \<Rightarrow> pydict option \<Rightarrow> string \<Rightarrow> bool \<Rightarrow> operator" where
  "PostHogTrackEventOperator_init uid ev props cid dbg =
     \<lparr>user_id = uid, event = ev, properties = properties_or_empty props,
      op_posthog_conn_id = cid, op_posthog_debug_mode = dbg\<rparr>"

text \<open>
  The expression \<^verbatim>\<open>hook.capture(user_id=..., event=..., properties=...)\<close>: the attribute
  is looked up on the hook and the result is called with the three keyword arguments.
  None of the hook's own attributes is named \<^verbatim>\<open>capture\<close>, so the branch \<open>Own\<close> is
  never taken.
\<close>

definition capture_kwargs :: "operator \<Rightarrow> pydict" where
  "capture_kwargs op =
     [(''user_id'', PyStr (user_id op)), (''event'', PyStr (event op)),
      (''properties'', PyDict (properties op))]"

definition hook_capture :: "framework \<Rightarrow> hook \<Rightarrow> operator \<Rightarrow> world \<Rightarrow> (exn + pyval) \<times> world" where
  "hook_capture fw h op w =
     (case hook_getattr fw ''capture'' of
        Inl e \<Rightarrow> (Inl e, w)
      | Inr (Own n) \<Rightarrow> (Inl (TypeError n), w)
      | Inr (Inherited m) \<Rightarrow> m h (capture_kwargs op) w)"

text \<open>
  \<^verbatim>\<open>PostHogTrackEventOperator.execute\<close>: builds the hook, logs, and evaluates
  \<^verbatim>\<open>hook.capture(...)\<close>. There is no \<^verbatim>\<open>try\<close>; the method returns \<^verbatim>\<open>None\<close>.
\<close>

definition execute :: "framework \<Rightarrow> operator \<Rightarrow> world \<Rightarrow> (exn + unit) \<times> world" where
  "execute fw op w =
     (case PostHogHook_init fw (op_posthog_conn_id op) (op_posthog_debug_mode op) [] [] w of
        (Inl e, w1) \<Rightarrow> (Inl e, w1)
      | (Inr h, w1) \<Rightarrow>
          (let w2 = log_info ''Sending track event (%s) for user id: %s with properties: %s''
                      [PyStr (event op), PyStr (user_id op), PyDict (properties op)] w1
           in case hook_capture fw h op w2 of
                (Inl e, w3) \<Rightarrow> (Inl e, w3)
              | (Inr r, w3) \<Rightarrow> (Inr (), w3)))"

section \<open>Concrete inputs\<close>

text \<open>The module as imported, before any hook has configured it.\<close>

definition fresh_posthog :: posthog_module where
  "fresh_posthog =
     \<lparr>client_debug = False, client_on_error = None, client_project_api_key = PyNone,
      client_captured = []\<rparr>"

definition fresh_world :: world where
  "fresh_world = \<lparr>posthog = fresh_posthog, logs = []\<rparr>"

definition conn_of :: "string \<Rightarrow> pydict \<Rightarrow> connection" where
  "conn_of cid ex = \<lparr>conn_id = cid, extra_dejson = ex\<rparr>"

text \<open>
  A connection store with four entries, and a \<^verbatim>\<open>BaseHook\<close> that offers no method under
  any of the names asked for.
\<close>

definition store :: "(string \<times> pydict) list" where
  "store =
     [(''posthog_default'', [(''project_api_key'', PyStr ''abc'')]),
      (''second'', [(''project_api_key'', PyStr ''xyz'')]),
      (''empty_key'', [(''project_api_key'', PyStr [])]),
      (''null_key'', [(''project_api_key'', PyNone)]),
      (''no_key'', [(''host'', PyStr ''app.posthog.com'')])]"

definition lookup_connection :: "string \<Rightarrow> exn + connection" where
  "lookup_connection cid =
     (case map_of store cid of
        None \<Rightarrow> Inl (AirflowException ''The conn_id is not defined'')
      | Some ex \<Rightarrow> Inr (conn_of cid ex))"

definition plain_framework :: framework where
  "plain_framework = \<lparr>get_connection = lookup_connection, base_getattr = (\<lambda>n. None)\<rparr>"

definition hook_abc :: hook where
  "hook_abc =
     \<lparr>posthog_conn_id = ''posthog_default'', posthog_debug_mode = True, args_ = [],
      kwargs_ = [], connection = conn_of ''posthog_default'' [(''project_api_key'', PyStr ''abc'')],
      extras = [(''project_api_key'', PyStr ''abc'')], project_api_key = PyStr ''abc''\<rparr>"

definition hook_xyz :: hook where
  "hook_xyz =
     \<lparr>posthog_conn_id = ''second'', posthog_debug_mode = False, args_ = [],
      kwargs_ = [], connection = conn_of ''second'' [(''project_api_key'', PyStr ''xyz'')],
      extras = [(''project_api_key'', PyStr ''xyz'')], project_api_key = PyStr ''xyz''\<rparr>"

text \<open>
  A \<^verbatim>\<open>BaseHook\<close> that does offer \<^verbatim>\<open>capture\<close>, as a method that always raises: it
  exercises the path on which the call itself fails.
\<close>

definition failing_capture :: inherited_method where
  "failing_capture h kw w = (Inl (OtherError ''connection refused''), w)"

definition failing_framework :: framework where
  "failing_framework =
     \<lparr>get_connection = lookup_connection,
      base_getattr = (\<lambda>n. if n = ''capture'' then Some failing_capture else None)\<rparr>"

section \<open>Facts about the hook\<close>

lemma capture_not_own: "''capture'' \<notin> set PostHogHook_attrs"
  by (simp add: PostHogHook_attrs_def)

lemma hook_getattr_capture:
  "hook_getattr fw ''capture'' =
     (case base_getattr fw ''capture'' of
        None \<Rightarrow> Inl (AttributeError ''PostHogHook'' ''capture'')
      | Some m \<Rightarrow> Inr (Inherited m))"
  using capture_not_own by (simp add: hook_getattr_def)

lemma init_resolved:
  "get_connection fw cid = Inr c \<Longrightarrow>
   PostHogHook_init fw cid dbg args kwargs w =
     (if dict_get (extra_dejson c) ''project_api_key'' = PyNone
      then (Inl (AirflowException ''No PostHog write key provided''), w)
      else (Inr \<lparr>posthog_conn_id = cid, posthog_debug_mode = dbg,
                 args_ = args, kwargs_ = kwargs, connection = c,
                 extras = extra_dejson c,
                 project_api_key = dict_get (extra_dejson c) ''project_api_key''\<rparr>, w))"
  by (simp add: PostHogHook_init_def Let_def)

lemma init_world: "snd (PostHogHook_init fw cid dbg args kwargs w) = w"
  by (simp add: PostHogHook_init_def Let_def split: sum.splits)

lemma init_success:
  "PostHogHook_init fw cid dbg args kwargs w = (Inr h, w1) \<Longrightarrow>
   w1 = w \<and> get_connection fw cid = Inr (connection h) \<and> posthog_debug_mode h = dbg \<and>
   posthog_conn_id h = cid \<and>
   project_api_key h = dict_get (extra_dejson (connection h)) ''project_api_key'' \<and>
   project_api_key h \<noteq> PyNone"
  by (auto simp: PostHogHook_init_def Let_def split: sum.splits if_splits)

lemma get_conn_posthog:
  "posthog (snd (get_conn h w)) =
     (posthog w)\<lparr>client_debug := posthog_debug_mode h,
                 client_on_error := Some (BoundOnError h),
                 client_project_api_key := project_api_key h\<rparr>"
  by (simp add: get_conn_def Let_def log_info_def)

lemma get_conn_handle: "fst (get_conn h w) = PosthogModule"
  by (simp add: get_conn_def Let_def)

section \<open>Facts about the operator\<close>

lemma execute_steps:
  "execute fw op w =
     (case PostHogHook_init fw (op_posthog_conn_id op) (op_posthog_debug_mode op) [] [] w of
        (Inl e, w1) \<Rightarrow> (Inl e, w1)
      | (Inr h, w1) \<Rightarrow>
          (case hook_capture fw h op
                  (log_info ''Sending track event (%s) for user id: %s with properties: %s''
                     [PyStr (event op), PyStr (user_id op), PyDict (properties op)] w1) of
             (Inl e, w3) \<Rightarrow> (Inl e, w3)
           | (Inr r, w3) \<Rightarrow> (Inr (), w3)))"
  by (simp add: execute_def Let_def split: prod.splits sum.splits)

lemma hook_capture_resolved:
  "hook_capture fw h op w =
     (case base_getattr fw ''capture'' of
        None \<Rightarrow> (Inl (AttributeError ''PostHogHook'' ''capture''), w)
      | Some m \<Rightarrow> m h (capture_kwargs op) w)"
  by (simp add: hook_capture_def hook_getattr_capture split: option.splits)

lemma execute_error_iff:
  "execute fw op w = (Inl e, w') \<longleftrightarrow>
     PostHogHook_init fw (op_posthog_conn_id op) (op_posthog_debug_mode op) [] [] w = (Inl e, w') \<or>
     (\<exists>h. PostHogHook_init fw (op_posthog_conn_id op) (op_posthog_debug_mode op) [] [] w = (Inr h, w) \<and>
          hook_capture fw h op
            (log_info ''Sending track event (%s) for user id: %s with properties: %s''
               [PyStr (event op), PyStr (user_id op), PyDict (properties op)] w) = (Inl e, w'))"
proof (cases "PostHogHook_init fw (op_posthog_conn_id op) (op_posthog_debug_mode op) [] [] w")
  case (Pair r w1)
  have w1: "w1 = w"
    using init_world [of fw "op_posthog_conn_id op" "op_posthog_debug_mode op" "[]" "[]" w] Pair
    by simp
  show ?thesis
  proof (cases r)
    case (Inl e0)
    with Pair show ?thesis by (simp add: execute_steps)
  next
    case (Inr h)
    with Pair w1 show ?thesis
      by (auto simp: execute_steps split: prod.splits sum.splits)
  qed
qed

section \<open>The concrete inputs, evaluated\<close>

lemma lookup_default:
  "lookup_connection ''posthog_default'' =
     Inr (conn_of ''posthog_default'' [(''project_api_key'', PyStr ''abc'')])"
  by (simp add: lookup_connection_def store_def)

lemma lookup_second:
  "lookup_connection ''second'' = Inr (conn_of ''second'' [(''project_api_key'', PyStr ''xyz'')])"
  by (simp add: lookup_connection_def store_def)

lemma lookup_empty_key:
  "lookup_connection ''empty_key'' = Inr (conn_of ''empty_key'' [(''project_api_key'', PyStr [])])"
  by (simp add: lookup_connection_def store_def)

lemma lookup_null_key:
  "lookup_connection ''null_key'' = Inr (conn_of ''null_key'' [(''project_api_key'', PyNone)])"
  by (simp add: lookup_connection_def store_def)

lemma lookup_no_key:
  "lookup_connection ''no_key'' = Inr (conn_of ''no_key'' [(''host'', PyStr ''app.posthog.com'')])"
  by (simp add: lookup_connection_def store_def)

lemma init_default_any_debug:
  "PostHogHook_init plain_framework ''posthog_default'' dbg [] [] w =
     (Inr (hook_abc\<lparr>posthog_debug_mode := dbg\<rparr>), w)"
  by (simp add: init_resolved [where c = "conn_of ''posthog_default'' [(''project_api_key'', PyStr ''abc'')]"]
      plain_framework_def lookup_default conn_of_def dict_get_def hook_abc_def)

lemma init_default_failing:
  "PostHogHook_init failing_framework ''posthog_default'' dbg [] [] w =
     (Inr (hook_abc\<lparr>posthog_debug_mode := dbg\<rparr>), w)"
  by (simp add: init_resolved [where c = "conn_of ''posthog_default'' [(''project_api_key'', PyStr ''abc'')]"]
      failing_framework_def lookup_default conn_of_def dict_get_def hook_abc_def)

lemma init_abc:
  "PostHogHook_init plain_framework ''posthog_default'' True [] [] w = (Inr hook_abc, w)"
  by (simp add: init_default_any_debug) (simp add: hook_abc_def)

lemma init_xyz:
  "PostHogHook_init plain_framework ''second'' False [] [] w = (Inr hook_xyz, w)"
  by (simp add: init_resolved [where c = "conn_of ''second'' [(''project_api_key'', PyStr ''xyz'')]"]
      plain_framework_def lookup_second conn_of_def dict_get_def hook_xyz_def)

lemma hook_xyz_key: "project_api_key hook_xyz = PyStr ''xyz''"
  by (simp add: hook_xyz_def)

section \<open>The operator's call of capture\<close>

text \<open>
  C1. An operator built with \<^verbatim>\<open>user_id="u1"\<close>, \<^verbatim>\<open>event="signup"\<close>,
  \<^verbatim>\<open>properties={"plan": "pro"}\<close> over a connection whose extras give
  \<^verbatim>\<open>project_api_key="abc"\<close> is meant to obtain the configured client from the hook and
  call the client's capture once with those three values. What \<^verbatim>\<open>execute\<close> evaluates is
  \<^verbatim>\<open>hook.capture(...)\<close>: with a \<^verbatim>\<open>BaseHook\<close> that has no attribute of that name the
  lookup raises \<^verbatim>\<open>AttributeError\<close> after the log line, \<^verbatim>\<open>get_conn\<close> is never called, the
  module is left as imported and it has received no capture call.
\<close>

theorem execute_signup_raises_attribute_error:
  "execute plain_framework
     (PostHogTrackEventOperator_init ''u1'' ''signup'' (Some [(''plan'', PyStr ''pro'')])
        ''posthog_default'' True) fresh_world =
   (Inl (AttributeError ''PostHogHook'' ''capture''),
    \<lparr>posthog = fresh_posthog,
     logs = [(INFO, ''Sending track event (%s) for user id: %s with properties: %s'',
              [PyStr ''signup'', PyStr ''u1'', PyDict [(''plan'', PyStr ''pro'')]])]\<rparr>)"
  by (simp add: execute_steps PostHogTrackEventOperator_init_def properties_or_empty_def
      init_abc hook_capture_resolved)
     (simp add: plain_framework_def log_info_def fresh_world_def)

text \<open>
  C6. An operator built with \<^verbatim>\<open>properties\<close> omitted stores the empty dictionary and
  passes it in the call expression, but the call is the same \<^verbatim>\<open>hook.capture(...)\<close>: the
  attribute lookup raises and the client's capture is not invoked at all.
\<close>

theorem execute_omitted_properties_raises_attribute_error:
  "properties (PostHogTrackEventOperator_init ''u1'' ''signup'' None ''posthog_default'' False) = [] \<and>
   execute plain_framework
     (PostHogTrackEventOperator_init ''u1'' ''signup'' None ''posthog_default'' False) fresh_world =
   (Inl (AttributeError ''PostHogHook'' ''capture''),
    \<lparr>posthog = fresh_posthog,
     logs = [(INFO, ''Sending track event (%s) for user id: %s with properties: %s'',
              [PyStr ''signup'', PyStr ''u1'', PyDict []])]\<rparr>)"
  by (simp add: execute_steps PostHogTrackEventOperator_init_def properties_or_empty_def
      init_default_any_debug hook_capture_resolved)
     (simp add: plain_framework_def log_info_def fresh_world_def)

text \<open>
  The same for every framework whose \<^verbatim>\<open>BaseHook\<close> has no \<^verbatim>\<open>capture\<close> and every
  operator whose hook can be built: \<^verbatim>\<open>execute\<close> raises \<^verbatim>\<open>AttributeError\<close>, adds its one
  log line and leaves the module \<^verbatim>\<open>posthog\<close> exactly as it was.
\<close>

theorem execute_without_inherited_capture:
  "base_getattr fw ''capture'' = None \<Longrightarrow>
   get_connection fw (op_posthog_conn_id op) = Inr c \<Longrightarrow>
   dict_get (extra_dejson c) ''project_api_key'' \<noteq> PyNone \<Longrightarrow>
   execute fw op w =
     (Inl (AttributeError ''PostHogHook'' ''capture''),
      w\<lparr>logs := logs w @ [(INFO, ''Sending track event (%s) for user id: %s with properties: %s'',
                           [PyStr (event op), PyStr (user_id op), PyDict (properties op)])]\<rparr>)"
  by (simp add: execute_steps init_resolved hook_capture_resolved log_info_def)

theorem execute_without_inherited_capture_witness:
  "execute plain_framework
     (PostHogTrackEventOperator_init ''u2'' ''login'' None ''second'' False) fresh_world =
   (Inl (AttributeError ''PostHogHook'' ''capture''),
    fresh_world\<lparr>logs := logs fresh_world @
       [(INFO, ''Sending track event (%s) for user id: %s with properties: %s'',
         [PyStr ''login'', PyStr ''u2'', PyDict []])]\<rparr>)"
proof -
  let ?op = "PostHogTrackEventOperator_init ''u2'' ''login'' None ''second'' False"
  let ?c = "conn_of ''second'' [(''project_api_key'', PyStr ''xyz'')]"
  have sel: "op_posthog_conn_id ?op = ''second''" "event ?op = ''login''" "user_id ?op = ''u2''"
    "properties ?op = []"
    by (simp_all add: PostHogTrackEventOperator_init_def properties_or_empty_def)
  have b: "base_getattr plain_framework ''capture'' = None"
    by (simp add: plain_framework_def)
  have g: "get_connection plain_framework (op_posthog_conn_id ?op) = Inr ?c"
    by (simp add: sel plain_framework_def lookup_second)
  have k: "dict_get (extra_dejson ?c) ''project_api_key'' \<noteq> PyNone"
    by (simp add: conn_of_def dict_get_def)
  from execute_without_inherited_capture [OF b g k, of fresh_world] show ?thesis
    unfolding sel .
qed

section \<open>Hook construction\<close>

text \<open>
  C2. For every connection record whose extras lack the key \<^verbatim>\<open>project_api_key\<close>,
  constructing the hook raises \<^verbatim>\<open>AirflowException\<close> at once, and the state it leaves is the
  state it found: the client's configuration is not written and no client operation has
  been attempted.
\<close>

theorem init_missing_key_raises:
  "get_connection fw cid = Inr c \<Longrightarrow> map_of (extra_dejson c) ''project_api_key'' = None \<Longrightarrow>
   PostHogHook_init fw cid dbg args kwargs w =
     (Inl (AirflowException ''No PostHog write key provided''), w)"
  by (simp add: init_resolved dict_get_def)

theorem init_missing_key_raises_witness:
  "PostHogHook_init plain_framework ''no_key'' True [] [] fresh_world =
     (Inl (AirflowException ''No PostHog write key provided''), fresh_world)"
  using init_missing_key_raises [of plain_framework "''no_key''"
      "conn_of ''no_key'' [(''host'', PyStr ''app.posthog.com'')]" True "[]" "[]" fresh_world]
  by (simp add: plain_framework_def lookup_no_key conn_of_def)

text \<open>
  C9. With the connection resolved, construction raises the missing-key error exactly when
  \<^verbatim>\<open>extras.get('project_api_key')\<close> is \<^verbatim>\<open>None\<close>, which is when the key is absent or
  stored as null; every other stored value, the empty string and other falsy values
  included, is accepted and becomes the hook's API key.
\<close>

theorem init_raises_iff_key_is_none:
  "get_connection fw cid = Inr c \<Longrightarrow>
   (fst (PostHogHook_init fw cid dbg args kwargs w) =
        Inl (AirflowException ''No PostHog write key provided'') \<longleftrightarrow>
      dict_get (extra_dejson c) ''project_api_key'' = PyNone) \<and>
   (dict_get (extra_dejson c) ''project_api_key'' = PyNone \<longleftrightarrow>
      map_of (extra_dejson c) ''project_api_key'' = None \<or>
      map_of (extra_dejson c) ''project_api_key'' = Some PyNone) \<and>
   (\<forall>v. v \<noteq> PyNone \<and> map_of (extra_dejson c) ''project_api_key'' = Some v \<longrightarrow>
      (\<exists>h. PostHogHook_init fw cid dbg args kwargs w = (Inr h, w) \<and> project_api_key h = v))"
  by (auto simp: init_resolved dict_get_def split: option.splits)

theorem init_raises_iff_key_is_none_witness:
  "(\<exists>h. PostHogHook_init plain_framework ''empty_key'' False [] [] fresh_world = (Inr h, fresh_world) \<and>
       project_api_key h = PyStr []) \<and>
   fst (PostHogHook_init plain_framework ''null_key'' False [] [] fresh_world) =
     Inl (AirflowException ''No PostHog write key provided'')"
proof -
  let ?c = "conn_of ''empty_key'' [(''project_api_key'', PyStr [])]"
  have g: "get_connection plain_framework ''empty_key'' = Inr ?c"
    by (simp add: plain_framework_def lookup_empty_key)
  have m: "PyStr [] \<noteq> PyNone \<and> map_of (extra_dejson ?c) ''project_api_key'' = Some (PyStr [])"
    by (simp add: conn_of_def)
  have a: "\<exists>h. PostHogHook_init plain_framework ''empty_key'' False [] [] fresh_world = (Inr h, fresh_world) \<and>
       project_api_key h = PyStr []"
    using init_raises_iff_key_is_none [OF g, of False "[]" "[]" fresh_world] m by blast
  let ?d = "conn_of ''null_key'' [(''project_api_key'', PyNone)]"
  have g': "get_connection plain_framework ''null_key'' = Inr ?d"
    by (simp add: plain_framework_def lookup_null_key)
  have m': "map_of (extra_dejson ?d) ''project_api_key'' = Some PyNone"
    by (simp add: conn_of_def)
  have b: "fst (PostHogHook_init plain_framework ''null_key'' False [] [] fresh_world) =
     Inl (AirflowException ''No PostHog write key provided'')"
    using init_raises_iff_key_is_none [OF g', of False "[]" "[]" fresh_world] m' by blast
  from a b show ?thesis by blast
qed

section \<open>Configuring the client\<close>

text \<open>
  C3, as stated: constructing a hook from a valid connection makes the client's
  \<^verbatim>\<open>project_api_key\<close> and \<^verbatim>\<open>debug\<close> equal to the hook's. It fails: the hook built from
  the connection with key \<^verbatim>\<open>"abc"\<close> in debug mode leaves the freshly imported module as
  it was, with no key and debug off.
\<close>

theorem init_leaves_client_counterexample:
  "PostHogHook_init plain_framework ''posthog_default'' True [] [] fresh_world =
     (Inr hook_abc, fresh_world) \<and>
   client_project_api_key (posthog fresh_world) \<noteq> project_api_key hook_abc \<and>
   client_debug (posthog fresh_world) \<noteq> posthog_debug_mode hook_abc"
  by (simp add: init_abc) (simp add: fresh_world_def fresh_posthog_def hook_abc_def)

text \<open>
  C3, amended. For every valid connection record, constructing a hook succeeds, stores the
  key and the debug flag in the hook and leaves the state unchanged; once \<^verbatim>\<open>get_conn\<close> is
  called on that hook, the client's \<^verbatim>\<open>project_api_key\<close> and \<^verbatim>\<open>debug\<close> equal the hook's
  configured values.
\<close>

theorem init_then_get_conn_configures:
  "get_connection fw cid = Inr c \<Longrightarrow> dict_get (extra_dejson c) ''project_api_key'' \<noteq> PyNone \<Longrightarrow>
   \<exists>h. PostHogHook_init fw cid dbg args kwargs w = (Inr h, w) \<and>
       project_api_key h = dict_get (extra_dejson c) ''project_api_key'' \<and>
       posthog_debug_mode h = dbg \<and>
       client_project_api_key (posthog (snd (get_conn h w))) = project_api_key h \<and>
       client_debug (posthog (snd (get_conn h w))) = posthog_debug_mode h"
  by (simp add: init_resolved get_conn_posthog)

theorem init_then_get_conn_configures_witness:
  "\<exists>h. PostHogHook_init plain_framework ''posthog_default'' True [] [] fresh_world =
         (Inr h, fresh_world) \<and>
       project_api_key h = PyStr ''abc'' \<and>
       posthog_debug_mode h = True \<and>
       client_project_api_key (posthog (snd (get_conn h fresh_world))) = project_api_key h \<and>
       client_debug (posthog (snd (get_conn h fresh_world))) = posthog_debug_mode h"
  using init_then_get_conn_configures [of plain_framework "''posthog_default''"
      "conn_of ''posthog_default'' [(''project_api_key'', PyStr ''abc'')]" True "[]" "[]" fresh_world]
  by (simp add: plain_framework_def lookup_default conn_of_def dict_get_def)

text \<open>
  C4, as stated: constructing two hooks one after the other, from connections with
  different keys, leaves the client configured with the second key. It fails: after the
  hooks for \<^verbatim>\<open>"abc"\<close> and \<^verbatim>\<open>"xyz"\<close> are built, the module is still as imported and its
  key is not \<^verbatim>\<open>"xyz"\<close>.
\<close>

theorem two_inits_leave_client_counterexample:
  "PostHogHook_init plain_framework ''posthog_default'' True [] [] fresh_world =
     (Inr hook_abc, fresh_world) \<and>
   PostHogHook_init plain_framework ''second'' False [] [] fresh_world =
     (Inr hook_xyz, fresh_world) \<and>
   project_api_key hook_xyz = PyStr ''xyz'' \<and>
   client_project_api_key (posthog fresh_world) \<noteq> PyStr ''xyz''"
  by (simp add: init_abc init_xyz) (simp add: fresh_world_def fresh_posthog_def hook_xyz_def)

text \<open>
  C4, amended. Constructing two hooks one after the other does not change the client;
  calling \<^verbatim>\<open>get_conn\<close> on the first and then on the second leaves the client exactly as
  \<^verbatim>\<open>get_conn\<close> on the second alone would: its key, debug flag and callback are the second
  hook's, and nothing of the first configuration remains.
\<close>

theorem second_get_conn_wins:
  "PostHogHook_init fw cid1 dbg1 args1 kwargs1 w = (Inr h1, w1) \<Longrightarrow>
   PostHogHook_init fw cid2 dbg2 args2 kwargs2 w1 = (Inr h2, w2) \<Longrightarrow>
   posthog w2 = posthog w \<and>
   posthog (snd (get_conn h2 (snd (get_conn h1 w2)))) = posthog (snd (get_conn h2 w2)) \<and>
   client_project_api_key (posthog (snd (get_conn h2 (snd (get_conn h1 w2))))) = project_api_key h2 \<and>
   client_debug (posthog (snd (get_conn h2 (snd (get_conn h1 w2))))) = dbg2 \<and>
   client_on_error (posthog (snd (get_conn h2 (snd (get_conn h1 w2))))) = Some (BoundOnError h2)"
  by (auto dest!: init_success simp: get_conn_posthog)

theorem second_get_conn_wins_witness:
  "posthog (snd (get_conn hook_xyz (snd (get_conn hook_abc fresh_world)))) =
     posthog (snd (get_conn hook_xyz fresh_world)) \<and>
   client_project_api_key (posthog (snd (get_conn hook_xyz (snd (get_conn hook_abc fresh_world))))) =
     PyStr ''xyz'' \<and>
   client_debug (posthog (snd (get_conn hook_xyz (snd (get_conn hook_abc fresh_world))))) = False \<and>
   client_on_error (posthog (snd (get_conn hook_xyz (snd (get_conn hook_abc fresh_world))))) =
     Some (BoundOnError hook_xyz)"
  using second_get_conn_wins [OF init_abc init_xyz, of fresh_world]
  unfolding hook_xyz_key by blast

text \<open>
  C8. For every successfully constructed hook, \<^verbatim>\<open>get_conn\<close> returns the module
  \<^verbatim>\<open>posthog\<close>, and afterwards the client's debug flag is the hook's debug-mode flag, the
  client's error callback is the hook's bound \<^verbatim>\<open>on_error\<close>, and the client's
  \<^verbatim>\<open>project_api_key\<close> is the key the hook read from its connection's extras. The capture
  calls the client has received are unchanged.
\<close>

theorem get_conn_configures_client:
  "PostHogHook_init fw cid dbg args kwargs w0 = (Inr h, w1) \<Longrightarrow>
   fst (get_conn h w) = PosthogModule \<and>
   client_debug (posthog (snd (get_conn h w))) = posthog_debug_mode h \<and>
   posthog_debug_mode h = dbg \<and>
   client_on_error (posthog (snd (get_conn h w))) = Some (BoundOnError h) \<and>
   client_project_api_key (posthog (snd (get_conn h w))) = project_api_key h \<and>
   get_connection fw cid = Inr (connection h) \<and>
   project_api_key h = dict_get (extra_dejson (connection h)) ''project_api_key'' \<and>
   client_captured (posthog (snd (get_conn h w))) = client_captured (posthog w)"
  by (auto dest!: init_success simp: get_conn_posthog get_conn_handle)

theorem get_conn_configures_client_witness:
  "fst (get_conn hook_abc fresh_world) = PosthogModule \<and>
   client_debug (posthog (snd (get_conn hook_abc fresh_world))) = True \<and>
   client_on_error (posthog (snd (get_conn hook_abc fresh_world))) = Some (BoundOnError hook_abc) \<and>
   client_project_api_key (posthog (snd (get_conn hook_abc fresh_world))) = PyStr ''abc''"
proof -
  have k: "project_api_key hook_abc = PyStr ''abc''" "posthog_debug_mode hook_abc = True"
    by (simp_all add: hook_abc_def)
  from get_conn_configures_client [OF init_abc [of fresh_world], where w = fresh_world]
  show ?thesis unfolding k by blast
qed

section \<open>The error callback\<close>

text \<open>
  C5. For a hook in debug mode, calling its error callback with
  \<^verbatim>\<open>("rate limited", "evt-123")\<close> writes one error record to the log, carrying the error
  and the offending item, and raises \<^verbatim>\<open>AirflowException\<close> with the message
  \<^verbatim>\<open>PostHog error: rate limited\<close>, which contains \<^verbatim>\<open>rate limited\<close>.
\<close>

theorem on_error_rate_limited:
  "posthog_debug_mode h \<Longrightarrow>
   on_error h ''rate limited'' ''evt-123'' w =
     (Inl (AirflowException ''PostHog error: rate limited''),
      w\<lparr>logs := logs w @ [(ERROR, ''Encountered PostHog error: %s with items: %s'',
                           [PyStr ''rate limited'', PyStr ''evt-123''])]\<rparr>) \<and>
   (\<exists>pre suf. ''PostHog error: rate limited'' = pre @ ''rate limited'' @ suf)"
proof -
  have "''PostHog error: rate limited'' = ''PostHog error: '' @ ''rate limited'' @ []"
    by simp
  then have "\<exists>pre suf. ''PostHog error: rate limited'' = pre @ ''rate limited'' @ suf"
    by blast
  then show ?thesis
    by (simp add: on_error_def log_error_def)
qed

theorem on_error_rate_limited_witness:
  "posthog_debug_mode hook_abc \<and>
   on_error hook_abc ''rate limited'' ''evt-123'' fresh_world =
     (Inl (AirflowException ''PostHog error: rate limited''),
      fresh_world\<lparr>logs := logs fresh_world @
         [(ERROR, ''Encountered PostHog error: %s with items: %s'',
           [PyStr ''rate limited'', PyStr ''evt-123''])]\<rparr>)"
proof -
  have d: "posthog_debug_mode hook_abc" by (simp add: hook_abc_def)
  from on_error_rate_limited [OF d, of fresh_world] d show ?thesis by blast
qed

text \<open>
  C10. The callback does not depend on the debug-mode flag: \<^verbatim>\<open>get_conn\<close> installs the
  hook's \<^verbatim>\<open>on_error\<close> for every hook, and for every hook an invocation of the installed
  callback logs the error with the items and raises \<^verbatim>\<open>AirflowException\<close> whose message
  is \<^verbatim>\<open>PostHog error: \<close> followed by the error string; setting the flag to either value
  changes nothing in what \<^verbatim>\<open>on_error\<close> does.
\<close>

theorem on_error_ignores_debug_mode:
  "client_on_error (posthog (snd (get_conn h w))) = Some (BoundOnError h) \<and>
   invoke_callback (BoundOnError h) err items w' =
     (Inl (AirflowException (''PostHog error: '' @ err)),
      w'\<lparr>logs := logs w' @ [(ERROR, ''Encountered PostHog error: %s with items: %s'',
                             [PyStr err, PyStr items])]\<rparr>) \<and>
   on_error (h\<lparr>posthog_debug_mode := b\<rparr>) err items w' = on_error h err items w'"
  by (simp add: get_conn_posthog on_error_def log_error_def)

section \<open>Errors leaving the operator\<close>

text \<open>
  C7. \<^verbatim>\<open>execute\<close> raises an error exactly when one of its steps does, and then it raises
  that same error and stops in the state the step left: either the hook's construction
  raised, or the hook was built, the line was logged, and \<^verbatim>\<open>hook.capture(...)\<close> raised.
  What \<^verbatim>\<open>hook.capture(...)\<close> raises is the \<^verbatim>\<open>AttributeError\<close> of the lookup or whatever the
  method found raises. Nothing is caught, retried or rewritten.
\<close>

theorem execute_propagates_errors:
  "(execute fw op w = (Inl e, w') \<longleftrightarrow>
     PostHogHook_init fw (op_posthog_conn_id op) (op_posthog_debug_mode op) [] [] w = (Inl e, w') \<or>
     (\<exists>h. PostHogHook_init fw (op_posthog_conn_id op) (op_posthog_debug_mode op) [] [] w = (Inr h, w) \<and>
          hook_capture fw h op
            (log_info ''Sending track event (%s) for user id: %s with properties: %s''
               [PyStr (event op), PyStr (user_id op), PyDict (properties op)] w) = (Inl e, w'))) \<and>
   hook_capture fw h' op w2 =
     (case base_getattr fw ''capture'' of
        None \<Rightarrow> (Inl (AttributeError ''PostHogHook'' ''capture''), w2)
      | Some m \<Rightarrow> m h' (capture_kwargs op) w2)"
  using execute_error_iff [of fw op w e w'] hook_capture_resolved [of fw h' op w2]
  by blast

theorem execute_propagates_errors_witness:
  "execute failing_framework
     (PostHogTrackEventOperator_init ''u1'' ''signup'' None ''posthog_default'' False) fresh_world =
   (Inl (OtherError ''connection refused''),
    log_info ''Sending track event (%s) for user id: %s with properties: %s''
      [PyStr ''signup'', PyStr ''u1'', PyDict []] fresh_world) \<and>
   execute plain_framework
     (PostHogTrackEventOperator_init ''u1'' ''signup'' None ''no_key'' False) fresh_world =
   (Inl (AirflowException ''No PostHog write key provided''), fresh_world)"
proof -
  let ?op = "PostHogTrackEventOperator_init ''u1'' ''signup'' None ''posthog_default'' False"
  let ?w2 = "log_info ''Sending track event (%s) for user id: %s with properties: %s''
      [PyStr ''signup'', PyStr ''u1'', PyDict []] fresh_world"
  have sel: "op_posthog_conn_id ?op = ''posthog_default''" "op_posthog_debug_mode ?op = False"
    "event ?op = ''signup''" "user_id ?op = ''u1''" "properties ?op = []"
    by (simp_all add: PostHogTrackEventOperator_init_def properties_or_empty_def)
  have cap: "hook_capture failing_framework (hook_abc\<lparr>posthog_debug_mode := False\<rparr>) ?op ?w2 =
      (Inl (OtherError ''connection refused''), ?w2)"
    by (simp add: hook_capture_resolved) (simp add: failing_framework_def failing_capture_def)
  have a: "execute failing_framework ?op fresh_world = (Inl (OtherError ''connection refused''), ?w2)"
    using execute_propagates_errors [of failing_framework ?op fresh_world
        "OtherError ''connection refused''" ?w2 hook_abc fresh_world] cap
    by (simp add: sel init_default_failing)
  let ?op' = "PostHogTrackEventOperator_init ''u1'' ''signup'' None ''no_key'' False"
  have sel': "op_posthog_conn_id ?op' = ''no_key''" "op_posthog_debug_mode ?op' = False"
    by (simp_all add: PostHogTrackEventOperator_init_def)
  have nk: "PostHogHook_init plain_framework ''no_key'' False [] [] fresh_world =
      (Inl (AirflowException ''No PostHog write key provided''), fresh_world)"
    by (simp add: init_resolved [where c = "conn_of ''no_key'' [(''host'', PyStr ''app.posthog.com'')]"]
        plain_framework_def lookup_no_key conn_of_def dict_get_def)
  have b: "execute plain_framework ?op' fresh_world =
      (Inl (AirflowException ''No PostHog write key provided''), fresh_world)"
    using execute_propagates_errors [of plain_framework ?op' fresh_world
        "AirflowException ''No PostHog write key provided''" fresh_world hook_abc fresh_world] nk
    by (simp add: sel')
  from a b show ?thesis by blast
qed

end
